theory Spec2Isabelle
  imports Complex_Main
begin

section \<open>JavaScript values used by the study-plan wizard\<close>

text \<open>
  A JavaScript number is a double: a finite number, one of the two infinities, or NaN.
  Finite numbers are modelled by their real value; the signed zero is not distinguished.
  Every comparison with NaN is false. The quotients of two small counts that the wizard
  compares with a threshold are taken exactly. The dashboard adds and divides fractional
  percentages, where the rounding of each result to the nearest double decides the figure
  shown; that arithmetic is modelled with the rounding, further below.
\<close>

datatype jsnum = NaN | NegInf | Fin real | PosInf

definition js_lt :: "jsnum \<Rightarrow> jsnum \<Rightarrow> bool" where
  "js_lt a b =
     (case a of
        NaN \<Rightarrow> False
      | NegInf \<Rightarrow> (case b of NaN \<Rightarrow> False | NegInf \<Rightarrow> False | _ \<Rightarrow> True)
      | Fin x \<Rightarrow> (case b of Fin y \<Rightarrow> x < y | PosInf \<Rightarrow> True | _ \<Rightarrow> False)
      | PosInf \<Rightarrow> False)"

definition js_le :: "jsnum \<Rightarrow> jsnum \<Rightarrow> bool" where
  "js_le a b =
     (case a of
        NaN \<Rightarrow> False
      | NegInf \<Rightarrow> (case b of NaN \<Rightarrow> False | _ \<Rightarrow> True)
      | Fin x \<Rightarrow> (case b of Fin y \<Rightarrow> x \<le> y | PosInf \<Rightarrow> True | _ \<Rightarrow> False)
      | PosInf \<Rightarrow> (case b of PosInf \<Rightarrow> True | _ \<Rightarrow> False))"

text \<open>\<open>x / y\<close> on finite operands: \<open>0 / 0\<close> is NaN, any other division by zero an infinity.\<close>

definition js_div :: "real \<Rightarrow> real \<Rightarrow> jsnum" where
  "js_div x y =
     (if y = 0 then (if x = 0 then NaN else if 0 < x then PosInf else NegInf)
      else Fin (x / y))"

definition js_times :: "jsnum \<Rightarrow> real \<Rightarrow> jsnum" where
  \<comment> \<open>multiplication by a positive finite constant\<close>
  "js_times a k = (case a of Fin x \<Rightarrow> Fin (x * k) | other \<Rightarrow> other)"

text \<open>\<open>Math.round\<close>: the nearest integer, halves going up; NaN and the infinities stay.\<close>

definition round_half_up :: "real \<Rightarrow> int" where
  "round_half_up x = \<lfloor>x + 1 / 2\<rfloor>"

definition Math_round :: "jsnum \<Rightarrow> jsnum" where
  "Math_round a = (case a of Fin x \<Rightarrow> Fin (real_of_int (round_half_up x)) | other \<Rightarrow> other)"


subsection \<open>Double arithmetic\<close>

text \<open>
  A double has 53 significant bits. \<open>expo x\<close> is the binary exponent of a positive
  number, the integer \<open>e\<close> with \<open>2 ^ e \<le> x < 2 ^ (e + 1)\<close>. \<open>quantum x\<close> is the
  spacing of the doubles at \<open>x\<close>; below the smallest normal exponent \<open>- 1022\<close> the
  spacing stays that of this exponent. \<open>nearest_double\<close> rounds to the nearest multiple
  of the quantum, a tie going to the even multiple, and \<open>to_double\<close> turns a result of
  magnitude \<open>2 ^ 1024\<close> or more into an infinity.
\<close>

fun bit_length :: "nat \<Rightarrow> nat" where
  "bit_length n = (if n = 0 then 0 else Suc (bit_length (n div 2)))"

declare bit_length.simps [simp del]

definition expo :: "real \<Rightarrow> int" where
  "expo x = (if 1 \<le> x then int (bit_length (nat \<lfloor>x\<rfloor>)) - 1
             else - int (bit_length (nat (\<lceil>1 / x\<rceil> - 1))))"

definition quantum :: "real \<Rightarrow> real" where
  "quantum x = 2 powi (max (expo x) (- 1022) - 52)"

definition round_even :: "real \<Rightarrow> int" where
  "round_even m =
     (if m - of_int \<lfloor>m\<rfloor> < 1 / 2 then \<lfloor>m\<rfloor>
      else if 1 / 2 < m - of_int \<lfloor>m\<rfloor> then \<lfloor>m\<rfloor> + 1
      else if even \<lfloor>m\<rfloor> then \<lfloor>m\<rfloor> else \<lfloor>m\<rfloor> + 1)"

definition nearest_double :: "real \<Rightarrow> real" where
  "nearest_double x =
     (if x = 0 then 0
      else sgn x * (of_int (round_even (\<bar>x\<bar> / quantum \<bar>x\<bar>)) * quantum \<bar>x\<bar>))"

definition to_double :: "real \<Rightarrow> jsnum" where
  "to_double x =
     (if 2 powi 1024 \<le> nearest_double x then PosInf
      else if nearest_double x \<le> - (2 powi 1024) then NegInf
      else Fin (nearest_double x))"

text \<open>
  \<open>a + v\<close> and \<open>a / k\<close> for a finite right operand, as the dashboard uses them: the
  exact result is rounded, NaN and the infinities propagate.
\<close>

definition dbl_add :: "jsnum \<Rightarrow> real \<Rightarrow> jsnum" where
  "dbl_add a v = (case a of Fin x \<Rightarrow> to_double (x + v) | other \<Rightarrow> other)"

definition dbl_div :: "jsnum \<Rightarrow> real \<Rightarrow> jsnum" where
  "dbl_div a k =
     (case a of
        Fin x \<Rightarrow> if k = 0 then (if x = 0 then NaN else if 0 < x then PosInf else NegInf)
                 else to_double (x / k)
      | NaN \<Rightarrow> NaN
      | PosInf \<Rightarrow> if 0 \<le> k then PosInf else NegInf
      | NegInf \<Rightarrow> if 0 \<le> k then NegInf else PosInf)"

text \<open>The values that a double can hold.\<close>

definition is_double :: "jsnum \<Rightarrow> bool" where
  "is_double a = (case a of Fin x \<Rightarrow> nearest_double x = x \<and> \<bar>x\<bar> < 2 powi 1024 | other \<Rightarrow> True)"

text \<open>\<open>v || d\<close> on a nullable number: null, undefined and 0 are falsy.\<close>

definition num_or :: "real option \<Rightarrow> real \<Rightarrow> real" where
  "num_or v d = (case v of None \<Rightarrow> d | Some x \<Rightarrow> if x = 0 then d else x)"

text \<open>Truthiness of an optional string: undefined, null and the empty string are falsy.\<close>

definition truthy :: "string option \<Rightarrow> bool" where
  "truthy v = (case v of None \<Rightarrow> False | Some x \<Rightarrow> x \<noteq> [])"

text \<open>\<open>v || d\<close> on an optional string.\<close>

definition str_or :: "string option \<Rightarrow> string \<Rightarrow> string" where
  "str_or v d = (case v of None \<Rightarrow> d | Some x \<Rightarrow> if x = [] then d else x)"

text \<open>Decimal rendering of a count, as a template literal prints it.\<close>

fun number_to_string :: "nat \<Rightarrow> string" where
  "number_to_string n =
     (if n < 10 then [''0123456789'' ! n]
      else number_to_string (n div 10) @ [''0123456789'' ! (n mod 10)])"

declare number_to_string.simps [simp del]

text \<open>\<open>Array.prototype.join\<close> on strings.\<close>

fun join :: "string \<Rightarrow> string list \<Rightarrow> string" where
  "join sep [] = []"
| "join sep [x] = x"
| "join sep (x # y # ys) = x @ sep @ join sep (y # ys)"

text \<open>
  \<open>[...new Set(xs)]\<close>: a Set keeps insertion order and ignores a value it already holds,
  so each value stays at its first occurrence.
\<close>

definition new_Set :: "'a list \<Rightarrow> 'a list" where
  "new_Set xs = fold (\<lambda>x acc. if x \<in> set acc then acc else acc @ [x]) xs []"


section \<open>Data model\<close>

record StudyTask =
  t_id :: nat
  t_topic :: string
  t_subject :: string
  t_subtopic :: string
  t_date :: string
  t_time :: real
  t_difficulty :: string
  t_quest_type :: string
  t_rewards :: string
  t_description :: string
  t_completed :: bool
  t_progress :: real
  t_chapter :: string

text \<open>A plan maps a week key to its tasks; the keys of a JavaScript object are distinct.\<close>

type_synonym StudyPlan = "(string \<times> StudyTask list) list"

record Progress =
  p_task_id :: string
  p_completed :: bool
  p_score :: "real option"
  p_last_updated :: "string option"

record Stats =
  completedTasks :: int
  totalTasks :: int
  currentStreak :: int
  weeklyGoal :: int
  totalPoints :: int
  completedThisWeek :: int
  averageScore :: real

record QuizQuestion =
  q_question :: string
  q_options :: "string list"
  q_answer :: string
  q_chapter :: "string option"
  q_topic :: "string option"
  q_marks :: "real option"

datatype quiz_type = Initial | Topic | Chapter | Three_chapter

text \<open>The component state of \<open>StudyPlanPage\<close> that the handlers below read or write.\<close>

record wizard =
  step :: int
  board :: string
  classNum :: int
  selectedSubject :: string
  extraChapters :: "string list"
  weakChapters :: "string list"
  studyPlan :: StudyPlan
  progress :: "Progress list"
  stats :: Stats
  error :: "string option"
  previousMarks :: "jsnum option"
  knowledgeLevel :: string
  initialQuiz :: "QuizQuestion list"
  topicQuiz :: "QuizQuestion list"
  chapterQuiz :: "QuizQuestion list"
  threeChapterQuiz :: "QuizQuestion list"
  quizAnswers :: "nat \<rightharpoonup> string"
  topicQuizAnswers :: "nat \<rightharpoonup> string"
  chapterQuizAnswers :: "nat \<rightharpoonup> string"
  threeChapterQuizAnswers :: "nat \<rightharpoonup> string"
  quizScore :: "nat option"
  selectedChapter :: "string option"
  selectedTopic :: "string option"
  currentSubtopic :: "string option"
  completedChapters :: "string list"
  completedTopics :: "string list"
  missedDate :: string
  nudge :: string


section \<open>The REST collaborator\<close>

text \<open>
  A call either resolves with the response body or rejects; a rejection carries
  \<open>err.response?.data?.detail\<close>, which may be missing. The handlers are run against a
  server given as a function from the request to its outcome, and return the requests
  they issued, in order, beside the new state.
\<close>

datatype request =
    Put_reschedule string string
  | Put_task_progress string string nat bool nat
  | Put_progress string bool "jsnum option"
  | Post_study_plans string string int string string "string list" "string list" string

type_synonym 'a promise = "string option + 'a"

record server =
  plan_reply :: "request \<Rightarrow> StudyPlan promise"
  progress_reply :: "request \<Rightarrow> Progress promise"

text \<open>\<open>err.response?.data?.detail || fallback\<close>\<close>

definition detail_or :: "string option \<Rightarrow> string \<Rightarrow> string" where
  "detail_or d fallback = str_or d fallback"

text \<open>What the handlers read from the clock.\<close>

record clock =
  startDate :: string
  endDate :: string
  now :: nat


section \<open>Nudge generator\<close>

definition rate :: "int \<Rightarrow> int \<Rightarrow> jsnum" where
  "rate completed total' =
     (if total' > 0 then js_div (real_of_int completed) (real_of_int total') else Fin 0)"

definition generateNudge :: "int \<Rightarrow> int \<Rightarrow> nat \<Rightarrow> string list \<Rightarrow> string" where
  "generateNudge completed total' missed weak =
     (if missed > 0 then
        ''Oops, you missed '' @ number_to_string missed @ '' tasks! Let's focus on ''
          @ str_or (Some (join '', '' (take 2 weak))) ''your studies''
          @ '' and conquer them together!''
      else if weak \<noteq> [] then
        ''You're making progress, but let's strengthen your skills in ''
          @ join '', '' (take 2 weak) @ ''. Keep pushing, brave scholar!''
      else if js_lt (Fin 0.8) (rate completed total') then
        ''You're dominating the knowledge kingdom like a true champion! Keep ruling!''
      else if js_lt (Fin 0.5) (rate completed total') then
        ''Great progress, adventurer! You're halfway to mastering this realm. Let's keep exploring!''
      else
        ''Every step counts, young scholar! Let's dive into the next quest and build your skills!'')"


section \<open>Prior-marks step\<close>

definition handleMarksSubmit :: "wizard \<Rightarrow> wizard" where
  "handleMarksSubmit s =
     (case previousMarks s of
        Some m \<Rightarrow>
          let level = (if js_lt m (Fin 60) then ''beginner''
                       else if js_le m (Fin 75) then ''intermediate''
                       else ''advanced'')
          in s\<lparr>knowledgeLevel := level, step := 4\<rparr>
      | None \<Rightarrow> s\<lparr>error := Some ''Please enter your marks''\<rparr>)"


section \<open>Quiz scoring\<close>

text \<open>\<open>xs.forEach((x, i) => ...)\<close> with the loop's mutable locals as an accumulator.\<close>

fun forEach :: "(nat \<Rightarrow> 'a \<Rightarrow> 'b \<Rightarrow> 'b) \<Rightarrow> 'a list \<Rightarrow> nat \<Rightarrow> 'b \<Rightarrow> 'b" where
  "forEach f [] i acc = acc"
| "forEach f (x # xs) i acc = forEach f xs (Suc i) (f i x acc)"

text \<open>The loop body of \<open>handleInitialQuizSubmit\<close>; the accumulator is \<open>(score, weak)\<close>.\<close>

definition initial_body :: "(nat \<rightharpoonup> string) \<Rightarrow> nat \<Rightarrow> QuizQuestion \<Rightarrow> nat \<times> string list \<Rightarrow> nat \<times> string list" where
  "initial_body answers i q acc =
     (case acc of (score, weak) \<Rightarrow>
        if answers i = Some (q_answer q) then (Suc score, weak)
        else if truthy (q_chapter q) then (score, weak @ [str_or (q_chapter q) []])
        else (score, weak))"

definition handleInitialQuizSubmit :: "server \<Rightarrow> clock \<Rightarrow> wizard \<Rightarrow> wizard \<times> request list" where
  "handleInitialQuizSubmit srv clk s =
     (case forEach (initial_body (quizAnswers s)) (initialQuiz s) 0 (0, []) of (score, weak) \<Rightarrow>
        let s1 = s\<lparr>quizScore := Some score, weakChapters := weak\<rparr>;
            req = Post_study_plans (selectedSubject s) (board s) (classNum s)
                    (startDate clk) (endDate clk) (extraChapters s) weak ''balanced''
        in (case plan_reply srv req of
              Inr plan \<Rightarrow> (s1\<lparr>studyPlan := plan, step := 6\<rparr>, [req])
            | Inl d \<Rightarrow> (s1\<lparr>error := Some (detail_or d ''Failed to generate study plan'')\<rparr>, [req])))"

text \<open>The loop body of \<open>handleQuizSubmit\<close>.\<close>

definition quiz_body :: "quiz_type \<Rightarrow> string option \<Rightarrow> (nat \<rightharpoonup> string) \<Rightarrow> nat \<Rightarrow> QuizQuestion \<Rightarrow> nat \<times> string list \<Rightarrow> nat \<times> string list" where
  "quiz_body ty selected answers i q acc =
     (case acc of (score, weak) \<Rightarrow>
        if answers i = Some (q_answer q) then (Suc score, weak)
        else if (ty = Initial \<or> ty = Three_chapter) \<and> truthy (q_chapter q)
          then (score, weak @ [str_or (q_chapter q) []])
        else if ty = Chapter \<and> truthy (q_topic q)
          then (score, weak @ [str_or (q_chapter q) (str_or selected [])])
        else (score, weak))"

definition answers_of :: "quiz_type \<Rightarrow> wizard \<Rightarrow> (nat \<rightharpoonup> string)" where
  "answers_of ty s =
     (if ty = Initial then quizAnswers s else if ty = Topic then topicQuizAnswers s
      else if ty = Chapter then chapterQuizAnswers s else threeChapterQuizAnswers s)"

definition quiz_of :: "quiz_type \<Rightarrow> wizard \<Rightarrow> QuizQuestion list" where
  "quiz_of ty s =
     (if ty = Initial then initialQuiz s else if ty = Topic then topicQuiz s
      else if ty = Chapter then chapterQuiz s else threeChapterQuiz s)"

definition type_name :: "quiz_type \<Rightarrow> string" where
  "type_name ty =
     (case ty of Initial \<Rightarrow> ''initial'' | Topic \<Rightarrow> ''topic'' | Chapter \<Rightarrow> ''chapter''
      | Three_chapter \<Rightarrow> ''three_chapter'')"

text \<open>The two locals of \<open>handleQuizSubmit\<close> after its loop: \<open>score\<close> and \<open>weak\<close>.\<close>

definition quiz_result :: "quiz_type \<Rightarrow> wizard \<Rightarrow> nat \<times> string list" where
  "quiz_result ty s =
     forEach (quiz_body ty (selectedChapter s) (answers_of ty s)) (quiz_of ty s) 0
       (0, weakChapters s)"

definition score_ratio :: "quiz_type \<Rightarrow> wizard \<Rightarrow> jsnum" where
  "score_ratio ty s = js_div (real (fst (quiz_result ty s))) (real (length (quiz_of ty s)))"

text \<open>
  \<open>handleInitialQuizSubmit\<close> reads only state that the statements before its call leave
  alone (the quiz, its answers and the selections), so it is run on the state they produce.
\<close>

definition handleQuizSubmit :: "server \<Rightarrow> clock \<Rightarrow> quiz_type \<Rightarrow> wizard \<Rightarrow> wizard \<times> request list" where
  "handleQuizSubmit srv clk ty s =
     (case quiz_result ty s of (score, weak) \<Rightarrow>
        let s1 = s\<lparr>quizScore := Some score\<rparr>;
            s2 = (if js_lt (score_ratio ty s) (Fin 0.6) then s1\<lparr>weakChapters := new_Set weak\<rparr> else s1);
            (s3, reqs) =
              (if ty = Initial then handleInitialQuizSubmit srv clk s2
               else if ty = Topic then (s2\<lparr>step := 6, currentSubtopic := None\<rparr>, [])
               else if ty = Chapter \<and> length (completedChapters s) \<ge> 3 then (s2\<lparr>step := 10\<rparr>, [])
               else if ty = Chapter then (s2\<lparr>step := 6\<rparr>, [])
               else if ty = Three_chapter then (s2\<lparr>step := 6\<rparr>, [])
               else (s2, []))
        in if ty \<noteq> Initial then
             let req = Put_progress (type_name ty @ ''_quiz_'' @ number_to_string (now clk)) True
                         (Some (js_times (score_ratio ty s) 100))
             in (case progress_reply srv req of
                   Inr r \<Rightarrow> (s3, reqs @ [req])
                 | Inl d \<Rightarrow> (s3\<lparr>error := Some (detail_or d ''Failed to save quiz progress'')\<rparr>, reqs @ [req]))
           else (s3, reqs))"


text \<open>
  The questions of a quiz that were answered wrongly or not at all, in quiz order, and the
  number answered correctly; \<open>i\<close> is the index of the first question of \<open>qs\<close>.
\<close>

definition misses :: "(nat \<rightharpoonup> string) \<Rightarrow> nat \<Rightarrow> QuizQuestion list \<Rightarrow> QuizQuestion list" where
  "misses answers i qs =
     map snd (filter (\<lambda>(j, q). answers j \<noteq> Some (q_answer q)) (enumerate i qs))"

definition hits :: "(nat \<rightharpoonup> string) \<Rightarrow> nat \<Rightarrow> QuizQuestion list \<Rightarrow> nat" where
  "hits answers i qs =
     length (filter (\<lambda>(j, q). answers j = Some (q_answer q)) (enumerate i qs))"


section \<open>Task completion and rescheduling\<close>

text \<open>
  Inside the handler \<open>studyPlan\<close>, \<open>progress\<close>, \<open>completedTopics\<close> and
  \<open>completedChapters\<close> are the values of the render that created it: \<open>setStudyPlan\<close>
  schedules the new plan for the next render and does not change what the running handler
  reads. The completion checks therefore scan the plan \<open>studyPlan s\<close> the handler started
  with.
\<close>

definition handleTaskCompletion :: "server \<Rightarrow> string \<Rightarrow> nat \<Rightarrow> wizard \<Rightarrow> wizard \<times> request list" where
  "handleTaskCompletion srv week taskId s =
     (case map_of (studyPlan s) week of
        None \<Rightarrow> (s, [])
      | Some tasks \<Rightarrow>
         (case find (\<lambda>t. t_id t = taskId) tasks of
            None \<Rightarrow> (s, [])
          | Some task \<Rightarrow>
             let req1 = Put_task_progress (selectedSubject s) week taskId True 100 in
             (case plan_reply srv req1 of
                Inl d \<Rightarrow> (s\<lparr>error := Some (detail_or d ''Failed to update task progress'')\<rparr>, [req1])
              | Inr plan \<Rightarrow>
                 let s1 = s\<lparr>studyPlan := plan\<rparr>;
                     req2 = Put_progress (number_to_string taskId) True None in
                 (case progress_reply srv req2 of
                    Inl d \<Rightarrow> (s1\<lparr>error := Some (detail_or d ''Failed to update task progress'')\<rparr>, [req1, req2])
                  | Inr r \<Rightarrow>
                     let s2 = s1\<lparr>progress := progress s @ [r]\<rparr>;
                         topicTasks = filter (\<lambda>t. t_topic t = t_topic task \<and> t_chapter t = t_chapter task)
                                        (concat (map snd (studyPlan s)));
                         s3 = (if list_all t_completed topicTasks
                               then s2\<lparr>completedTopics := new_Set (completedTopics s @ [t_topic task]),
                                       selectedTopic := Some (t_topic task),
                                       selectedChapter := Some (t_chapter task),
                                       step := 8\<rparr>
                               else s2);
                         chapterTasks = filter (\<lambda>t. t_chapter t = t_chapter task)
                                          (concat (map snd (studyPlan s)));
                         s4 = (if list_all t_completed chapterTasks
                               then s3\<lparr>completedChapters := new_Set (completedChapters s @ [t_chapter task]),
                                       selectedChapter := Some (t_chapter task),
                                       step := 9\<rparr>
                               else s3)
                     in (s4, [req1, req2])))))"

definition handleReschedule :: "server \<Rightarrow> wizard \<Rightarrow> wizard \<times> request list" where
  "handleReschedule srv s =
     (if missedDate s = [] then (s\<lparr>error := Some ''Please select a missed date''\<rparr>, [])
      else
        let req = Put_reschedule (selectedSubject s) (missedDate s) in
        (case plan_reply srv req of
           Inr plan \<Rightarrow>
             (s\<lparr>studyPlan := plan,
                nudge := generateNudge (completedTasks (stats s)) (totalTasks (stats s)) 0 (weakChapters s),
                missedDate := []\<rparr>, [req])
         | Inl d \<Rightarrow> (s\<lparr>error := Some (detail_or d ''Failed to reschedule tasks'')\<rparr>, [req])))"

text \<open>The user actions whose handlers are modelled, and the state after each.\<close>

datatype event =
    MarksSubmit
  | TaskCompletion string nat
  | Reschedule
  | QuizSubmit quiz_type

definition after :: "server \<Rightarrow> clock \<Rightarrow> event \<Rightarrow> wizard \<Rightarrow> wizard" where
  "after srv clk e s =
     (case e of
        MarksSubmit \<Rightarrow> handleMarksSubmit s
      | TaskCompletion week taskId \<Rightarrow> fst (handleTaskCompletion srv week taskId s)
      | Reschedule \<Rightarrow> fst (handleReschedule srv s)
      | QuizSubmit ty \<Rightarrow> fst (handleQuizSubmit srv clk ty s))"


section \<open>Dashboard aggregation\<close>

record ProgressStats =
  ds_completed :: nat
  ds_total :: nat
  ds_averageScore :: jsnum

definition getProgressStats :: "Progress list \<Rightarrow> ProgressStats" where
  "getProgressStats progress' =
     (let completed = length (filter p_completed progress');
          total' = length progress';
          averageScore' = dbl_div (foldl (\<lambda>sum' p. dbl_add sum' (num_or (p_score p) 0)) (Fin 0) progress')
                            (real (if completed \<noteq> 0 then completed else 1))
      in \<lparr>ds_completed = completed, ds_total = total', ds_averageScore = Math_round averageScore'\<rparr>)"

text \<open>
  The average as the specification words it: the sum of the scores of the completed
  records, null counted as 0, over the number of completed records or 1, in the same
  double arithmetic and in log order.
\<close>

definition spec_averageScore :: "Progress list \<Rightarrow> jsnum" where
  "spec_averageScore progress' =
     dbl_div (foldl dbl_add (Fin 0) (map (\<lambda>p. num_or (p_score p) 0) (filter p_completed progress')))
       (real (max (length (filter p_completed progress')) 1))"


section \<open>Concrete states and servers\<close>

text \<open>
  \<open>initial_wizard\<close> holds the initial values of the component's \<open>useState\<close> calls.
  The other constants are small states, tasks, records and servers on which the
  handlers are run below.
\<close>

definition initial_wizard :: wizard where
  "initial_wizard =
     \<lparr>step = 0, board = [], classNum = 9, selectedSubject = [],
      extraChapters = [], weakChapters = [], studyPlan = [], progress = [],
      stats = \<lparr>completedTasks = 0, totalTasks = 0, currentStreak = 0, weeklyGoal = 0,
                totalPoints = 0, completedThisWeek = 0, averageScore = 0\<rparr>,
      error = None, previousMarks = None, knowledgeLevel = ''beginner'',
      initialQuiz = [], topicQuiz = [], chapterQuiz = [], threeChapterQuiz = [],
      quizAnswers = Map.empty, topicQuizAnswers = Map.empty,
      chapterQuizAnswers = Map.empty, threeChapterQuizAnswers = Map.empty,
      quizScore = None, selectedChapter = None, selectedTopic = None, currentSubtopic = None,
      completedChapters = [], completedTopics = [], missedDate = [], nudge = []\<rparr>"

definition record_of :: "string \<Rightarrow> bool \<Rightarrow> real option \<Rightarrow> Progress" where
  "record_of k c v = \<lparr>p_task_id = k, p_completed = c, p_score = v, p_last_updated = None\<rparr>"

definition resolving :: "StudyPlan \<Rightarrow> server" where
  "resolving plan = \<lparr>plan_reply = (\<lambda>r. Inr plan), progress_reply = (\<lambda>r. Inr (record_of ''saved'' True None))\<rparr>"

definition rejecting :: "string option \<Rightarrow> server" where
  "rejecting d = \<lparr>plan_reply = (\<lambda>r. Inl d), progress_reply = (\<lambda>r. Inl d)\<rparr>"

definition task_of :: "nat \<Rightarrow> string \<Rightarrow> string \<Rightarrow> bool \<Rightarrow> StudyTask" where
  "task_of n ch tp c =
     \<lparr>t_id = n, t_topic = tp, t_subject = ''Physics'', t_subtopic = ''Basics'', t_date = ''2025-01-06'',
      t_time = 1, t_difficulty = ''easy'', t_quest_type = ''study'', t_rewards = ''10 XP'',
      t_description = ''Read'', t_completed = c, t_progress = (if c then 100 else 0), t_chapter = ch\<rparr>"

definition dashboard_wizard :: wizard where
  "dashboard_wizard = initial_wizard\<lparr>step := 6, selectedSubject := ''Physics'',
      studyPlan := [(''1'', [task_of 1 ''Motion'' ''Speed'' False])]\<rparr>"


definition question_of :: "string \<Rightarrow> string option \<Rightarrow> string option \<Rightarrow> QuizQuestion" where
  "question_of key ch tp =
     \<lparr>q_question = ''?'', q_options = [''A'', ''B'', ''C'', ''X''], q_answer = key,
      q_chapter = ch, q_topic = tp, q_marks = None\<rparr>"

text \<open>The three-question quiz of the end-to-end scenario, and the answers given to it.\<close>

definition scenario_quiz :: "QuizQuestion list" where
  "scenario_quiz =
     [question_of ''A'' (Some ''Ch1'') None, question_of ''X'' (Some ''Ch2'') None,
      question_of ''C'' (Some ''Ch3'') None]"

definition scenario_answers :: "nat \<rightharpoonup> string" where
  "scenario_answers = [0 \<mapsto> ''A'', 1 \<mapsto> ''B'', 2 \<mapsto> ''C'']"

definition the_clock :: clock where
  "the_clock = \<lparr>startDate = ''2025-01-01'', endDate = ''2025-07-01'', now = 1735689600000\<rparr>"

text \<open>
  A plan with three tasks of chapter Motion, the first two complete, and the plan the
  server returns once the third is marked complete.
\<close>

definition motion_plan :: StudyPlan where
  "motion_plan =
     [(''1'', [task_of 1 ''Motion'' ''Speed'' True, task_of 2 ''Motion'' ''Velocity'' True]),
      (''2'', [task_of 3 ''Motion'' ''Acceleration'' False])]"

definition motion_plan_done :: StudyPlan where
  "motion_plan_done =
     [(''1'', [task_of 1 ''Motion'' ''Speed'' True, task_of 2 ''Motion'' ''Velocity'' True]),
      (''2'', [task_of 3 ''Motion'' ''Acceleration'' True])]"


section \<open>Prior-marks step: marks to knowledge level\<close>

text \<open>
  C1. For every non-null marks value \<open>m\<close> submitted at the prior-marks step the wizard
  advances to step 4, and the derived knowledge level is beginner if \<open>m < 60\<close>,
  intermediate if \<open>60 \<le> m \<le> 75\<close> and advanced if \<open>m > 75\<close>; the boundary values 60
  and 75 are both intermediate. The comparisons are JavaScript's, so the statement also
  covers the infinities; NaN satisfies none of the three conditions.
\<close>

theorem marks_to_level:
  assumes "previousMarks s = Some m"
  shows "step (handleMarksSubmit s) = 4
       \<and> (js_lt m (Fin 60) \<longrightarrow> knowledgeLevel (handleMarksSubmit s) = ''beginner'')
       \<and> (js_le (Fin 60) m \<and> js_le m (Fin 75) \<longrightarrow> knowledgeLevel (handleMarksSubmit s) = ''intermediate'')
       \<and> (js_lt (Fin 75) m \<longrightarrow> knowledgeLevel (handleMarksSubmit s) = ''advanced'')"
  using assms
  by (cases m) (auto simp add: handleMarksSubmit_def js_lt_def js_le_def Let_def)

theorem marks_to_level_witness:
  "knowledgeLevel (handleMarksSubmit (initial_wizard\<lparr>step := 3, previousMarks := Some (Fin 59)\<rparr>)) = ''beginner''
 \<and> knowledgeLevel (handleMarksSubmit (initial_wizard\<lparr>step := 3, previousMarks := Some (Fin 60)\<rparr>)) = ''intermediate''
 \<and> knowledgeLevel (handleMarksSubmit (initial_wizard\<lparr>step := 3, previousMarks := Some (Fin 75)\<rparr>)) = ''intermediate''
 \<and> knowledgeLevel (handleMarksSubmit (initial_wizard\<lparr>step := 3, previousMarks := Some (Fin 76)\<rparr>)) = ''advanced''
 \<and> step (handleMarksSubmit (initial_wizard\<lparr>step := 3, previousMarks := Some (Fin 60)\<rparr>)) = 4"
  using marks_to_level [of "initial_wizard\<lparr>step := 3, previousMarks := Some (Fin 59)\<rparr>" "Fin 59"]
        marks_to_level [of "initial_wizard\<lparr>step := 3, previousMarks := Some (Fin 60)\<rparr>" "Fin 60"]
        marks_to_level [of "initial_wizard\<lparr>step := 3, previousMarks := Some (Fin 75)\<rparr>" "Fin 75"]
        marks_to_level [of "initial_wizard\<lparr>step := 3, previousMarks := Some (Fin 76)\<rparr>" "Fin 76"]
  by (simp add: js_lt_def js_le_def)


section \<open>Nudge generator: the cascade\<close>




text \<open>Without the guard the rate of an empty plan would not be a finite number.\<close>

lemma division_by_zero_total:
  "js_div (real_of_int completed) (real_of_int 0) \<in> {NaN, PosInf, NegInf}"
  by (simp add: js_div_def)

text \<open>
  C10. The nudge generator is total for \<open>total = 0\<close>: the rate is then the finite number
  0 by the guard, whatever the completed count, and the division is not evaluated; an
  empty plan with no misses and no weak chapters gets the generic encouragement.
\<close>

theorem nudge_total_on_empty_plan:
  "rate completed 0 = Fin 0
 \<and> generateNudge completed 0 0 [] =
      ''Every step counts, young scholar! Let's dive into the next quest and build your skills!''"
  by (simp add: generateNudge_def rate_def js_lt_def)


section \<open>Rescheduling\<close>

text \<open>
  C9. Rescheduling requires a non-empty missed date. With the empty date the handler sets
  the local error and issues no request. With a non-empty date it issues exactly one
  request, carrying the current subject and the date; when the call resolves, the returned
  plan replaces the study plan as it is; when the call rejects, an error is set (the
  server's detail, or the fallback message) and nothing else in the state changes, so the
  existing plan stays.
\<close>

theorem reschedule_contract:
  "(missedDate s = [] \<longrightarrow>
      handleReschedule srv s = (s\<lparr>error := Some ''Please select a missed date''\<rparr>, []))
 \<and> (missedDate s \<noteq> [] \<longrightarrow>
      snd (handleReschedule srv s) = [Put_reschedule (selectedSubject s) (missedDate s)])
 \<and> (missedDate s \<noteq> [] \<and> plan_reply srv (Put_reschedule (selectedSubject s) (missedDate s)) = Inr plan \<longrightarrow>
      studyPlan (fst (handleReschedule srv s)) = plan \<and> error (fst (handleReschedule srv s)) = error s)
 \<and> (missedDate s \<noteq> [] \<and> plan_reply srv (Put_reschedule (selectedSubject s) (missedDate s)) = Inl d \<longrightarrow>
      fst (handleReschedule srv s) = s\<lparr>error := Some (detail_or d ''Failed to reschedule tasks'')\<rparr>
    \<and> studyPlan (fst (handleReschedule srv s)) = studyPlan s)"
  by (simp add: handleReschedule_def Let_def split: sum.splits)

theorem reschedule_contract_witness:
  "handleReschedule (resolving []) dashboard_wizard =
     (dashboard_wizard\<lparr>error := Some ''Please select a missed date''\<rparr>, [])
 \<and> snd (handleReschedule (resolving [(''2'', [task_of 1 ''Motion'' ''Speed'' False])])
            (dashboard_wizard\<lparr>missedDate := ''2025-01-06''\<rparr>))
     = [Put_reschedule ''Physics'' ''2025-01-06'']
 \<and> studyPlan (fst (handleReschedule (resolving [(''2'', [task_of 1 ''Motion'' ''Speed'' False])])
            (dashboard_wizard\<lparr>missedDate := ''2025-01-06''\<rparr>)))
     = [(''2'', [task_of 1 ''Motion'' ''Speed'' False])]
 \<and> error (fst (handleReschedule (rejecting None) (dashboard_wizard\<lparr>missedDate := ''2025-01-06''\<rparr>)))
     = Some ''Failed to reschedule tasks''
 \<and> studyPlan (fst (handleReschedule (rejecting None) (dashboard_wizard\<lparr>missedDate := ''2025-01-06''\<rparr>)))
     = [(''1'', [task_of 1 ''Motion'' ''Speed'' False])]"
  using reschedule_contract [of dashboard_wizard "resolving []" "[]" None]
        reschedule_contract [of "dashboard_wizard\<lparr>missedDate := ''2025-01-06''\<rparr>"
                                "resolving [(''2'', [task_of 1 ''Motion'' ''Speed'' False])]"
                                "[(''2'', [task_of 1 ''Motion'' ''Speed'' False])]" None]
        reschedule_contract [of "dashboard_wizard\<lparr>missedDate := ''2025-01-06''\<rparr>"
                                "rejecting None" "[]" None]
  by (simp add: dashboard_wizard_def initial_wizard_def resolving_def rejecting_def detail_or_def str_or_def)


section \<open>Rounding to the nearest double\<close>

text \<open>
  The exponent brackets its argument between two powers of two and is the only integer
  that does. A positive multiple of a power of two with at most 53 significant bits is
  its own nearest double, and rounding twice is rounding once.
\<close>

lemma bit_length_bounds:
  "0 < n \<Longrightarrow> 2 ^ (bit_length n - 1) \<le> n \<and> n < 2 ^ bit_length n"
proof (induction n rule: bit_length.induct)
  case (1 n)
  show ?case
  proof (cases "n div 2 = 0")
    case True
    with "1.prems" have "n = 1" by linarith
    then show ?thesis by (simp add: bit_length.simps)
  next
    case False
    then have pos: "0 < n div 2" by simp
    with "1.IH" "1.prems" have ih: "2 ^ (bit_length (n div 2) - 1) \<le> n div 2" "n div 2 < 2 ^ bit_length (n div 2)"
      by simp_all
    have bl: "bit_length n = Suc (bit_length (n div 2))"
      using "1.prems" by (subst bit_length.simps) simp
    have "0 < bit_length (n div 2)"
      using pos by (subst bit_length.simps) simp
    then have e: "bit_length n - 1 = Suc (bit_length (n div 2) - 1)"
      using bl by simp
    have "2 ^ (bit_length n - 1) = 2 * 2 ^ (bit_length (n div 2) - 1)"
      by (simp only: e power_Suc)
    also have "\<dots> \<le> 2 * (n div 2)" using ih(1) by simp
    also have "\<dots> \<le> n" by simp
    finally have lo: "2 ^ (bit_length n - 1) \<le> n" .
    have "n < 2 * (n div 2) + 2" by linarith
    also have "\<dots> \<le> 2 * 2 ^ bit_length (n div 2)" using ih(2) by simp
    finally have "n < 2 ^ bit_length n" by (simp add: bl)
    with lo show ?thesis by simp
  qed
qed

lemma expo_bounds:
  assumes "0 < x"
  shows "2 powi (expo x) \<le> x \<and> x < 2 powi (expo x + 1)"
proof (cases "1 \<le> x")
  case True
  define n where "n = nat \<lfloor>x\<rfloor>"
  have npos: "0 < n" using True by (simp add: n_def)
  have nx: "real n \<le> x" "x < real n + 1"
    using True by (simp_all add: n_def)
  from bit_length_bounds [OF npos]
  have b: "2 ^ (bit_length n - 1) \<le> n" "n < 2 ^ bit_length n" by simp_all
  have blpos: "0 < bit_length n" using npos by (subst bit_length.simps) simp
  have ex: "expo x = int (bit_length n - 1)"
    using True blpos by (simp add: expo_def n_def)
  have "real (2 ^ (bit_length n - 1)) \<le> real n" using b(1) by (simp only: of_nat_le_iff)
  then have r: "(2::real) ^ (bit_length n - 1) \<le> real n" by simp
  have "(2::real) powi (expo x) = 2 ^ (bit_length n - 1)" by (simp only: ex power_int_of_nat)
  with r nx(1) have lo: "2 powi (expo x) \<le> x" by linarith
  have "n + 1 \<le> 2 ^ bit_length n" using b(2) by simp
  then have "real (n + 1) \<le> real (2 ^ bit_length n)" by (simp only: of_nat_le_iff)
  then have "real n + 1 \<le> 2 ^ bit_length n" by simp
  then have "x < 2 ^ bit_length n" using nx(2) by linarith
  moreover have "expo x + 1 = int (bit_length n)" using ex blpos by simp
  then have "(2::real) powi (expo x + 1) = 2 ^ bit_length n" by (simp only: power_int_of_nat)
  ultimately have "x < 2 powi (expo x + 1)" by linarith
  with lo show ?thesis by simp
next
  case False
  then have x1: "x < 1" by simp
  define n where "n = nat (\<lceil>1 / x\<rceil> - 1)"
  have inv: "1 < 1 / x" using assms x1 by simp
  then have c2: "2 \<le> \<lceil>1 / x\<rceil>" by linarith
  then have npos: "0 < n" by (simp add: n_def)
  have "0 \<le> \<lceil>1 / x\<rceil> - 1" using c2 by linarith
  then have "real (nat (\<lceil>1 / x\<rceil> - 1)) = of_int (\<lceil>1 / x\<rceil> - 1)" by (simp only: of_nat_nat)
  then have nr: "real n = of_int \<lceil>1 / x\<rceil> - 1" unfolding n_def by (simp only: of_int_diff of_int_1)
  have nx: "real n < 1 / x" "1 / x \<le> real n + 1"
    unfolding nr by linarith+
  from bit_length_bounds [OF npos]
  have b: "2 ^ (bit_length n - 1) \<le> n" "n < 2 ^ bit_length n" by simp_all
  have blpos: "0 < bit_length n" using npos by (subst bit_length.simps) simp
  have ex: "expo x = - int (bit_length n)"
    using False by (simp add: expo_def n_def)
  have "n + 1 \<le> 2 ^ bit_length n" using b(2) by simp
  then have "real (n + 1) \<le> real (2 ^ bit_length n)" by (simp only: of_nat_le_iff)
  then have "real n + 1 \<le> 2 ^ bit_length n" by simp
  then have "1 / x \<le> 2 ^ bit_length n" using nx(2) by linarith
  then have "1 \<le> 2 ^ bit_length n * x" using assms by (simp only: pos_divide_le_eq)
  then have "1 / 2 ^ bit_length n \<le> x" by (simp add: pos_divide_le_eq mult.commute)
  moreover have "(2::real) powi (expo x) = 1 / 2 ^ bit_length n"
    by (simp only: ex power_int_minus_divide power_int_of_nat)
  ultimately have lo: "2 powi (expo x) \<le> x" by linarith
  have "real (2 ^ (bit_length n - 1)) \<le> real n" using b(1) by (simp only: of_nat_le_iff)
  then have "(2::real) ^ (bit_length n - 1) \<le> real n" by simp
  then have "2 ^ (bit_length n - 1) < 1 / x" using nx(1) by linarith
  then have "2 ^ (bit_length n - 1) * x < 1" using assms by (simp only: pos_less_divide_eq)
  then have "x < 1 / 2 ^ (bit_length n - 1)" by (simp add: pos_less_divide_eq mult.commute)
  moreover have "expo x + 1 = - int (bit_length n - 1)" using ex blpos by simp
  then have "(2::real) powi (expo x + 1) = 1 / 2 ^ (bit_length n - 1)"
    by (simp only: power_int_minus_divide power_int_of_nat)
  ultimately have "x < 2 powi (expo x + 1)" by linarith
  with lo show ?thesis by simp
qed

lemma two_powi_less_iff: "(2::real) powi a < 2 powi b \<longleftrightarrow> a < b"
proof
  assume l: "(2::real) powi a < 2 powi b"
  show "a < b"
  proof (rule ccontr)
    assume "\<not> a < b"
    then have "b \<le> a" by simp
    then have "(2::real) powi b \<le> 2 powi a" by (intro power_int_increasing) simp_all
    with l show False by simp
  qed
next
  assume "a < b"
  then show "(2::real) powi a < 2 powi b" by (intro power_int_strict_increasing) simp_all
qed

lemma two_powi_le_iff: "(2::real) powi a \<le> 2 powi b \<longleftrightarrow> a \<le> b"
  using two_powi_less_iff [of b a] by (simp add: not_less [symmetric])

lemma expo_unique:
  assumes "2 powi e \<le> x" and "x < 2 powi (e + 1)"
  shows "expo x = e"
proof -
  have pos: "0 < x" using assms(1) by (smt (verit) zero_less_power_int)
  from expo_bounds [OF pos] have b: "2 powi (expo x) \<le> x" "x < 2 powi (expo x + 1)" by simp_all
  have "(2::real) powi e < 2 powi (expo x + 1)" using assms(1) b(2) by linarith
  then have "e < expo x + 1" by (simp add: two_powi_less_iff)
  moreover have "(2::real) powi (expo x) < 2 powi (e + 1)" using assms(2) b(1) by linarith
  then have "expo x < e + 1" by (simp add: two_powi_less_iff)
  ultimately show ?thesis by simp
qed

lemma round_even_int: "round_even (of_int n) = n"
  by (simp add: round_even_def)

lemma round_even_upper:
  assumes "m \<le> of_int b"
  shows "round_even m \<le> b"
proof (cases "m - of_int \<lfloor>m\<rfloor> < 1 / 2")
  case True
  then have "round_even m = \<lfloor>m\<rfloor>" by (simp add: round_even_def)
  moreover have "\<lfloor>m\<rfloor> \<le> b" using assms by (simp add: floor_le_iff)
  ultimately show ?thesis by simp
next
  case False
  then have "of_int \<lfloor>m\<rfloor> < m" by linarith
  then have "of_int \<lfloor>m\<rfloor> < (of_int b :: real)" using assms by linarith
  then have "\<lfloor>m\<rfloor> < b" by (simp only: of_int_less_iff)
  moreover have "round_even m \<le> \<lfloor>m\<rfloor> + 1" by (simp add: round_even_def)
  ultimately show ?thesis by linarith
qed

lemma round_even_lower:
  assumes "of_int a \<le> m"
  shows "a \<le> round_even m"
proof -
  have "a \<le> \<lfloor>m\<rfloor>" using assms by (simp add: le_floor_iff)
  moreover have "\<lfloor>m\<rfloor> \<le> round_even m" by (simp add: round_even_def)
  ultimately show ?thesis by linarith
qed

lemma quantum_pos: "0 < quantum x"
  by (simp add: quantum_def)

lemma nearest_double_minus: "nearest_double (- x) = - nearest_double x"
  by (simp add: nearest_double_def sgn_minus)

lemma nearest_double_multiple:
  assumes "0 < y" and "y / quantum y = of_int k"
  shows "nearest_double y = y"
proof -
  have "of_int (round_even (y / quantum y)) * quantum y = y"
    using quantum_pos [of y] by (simp add: assms(2) round_even_int del: of_int_mult)
       (metis assms(2) nonzero_divide_eq_eq less_numeral_extra(3))
  then show ?thesis using assms(1) by (simp add: nearest_double_def)
qed

lemma two_powi_53: "(2::real) powi 53 * 2 powi (E - 52) = 2 powi (E + 1)"
proof -
  have "(2::real) powi 53 * 2 powi (E - 52) = 2 powi (53 + (E - 52))"
    by (rule power_int_add [symmetric]) simp
  moreover have "53 + (E - 52) = E + 1" by simp
  ultimately show ?thesis by (simp only:)
qed

lemma two_powi_split: "(2::real) powi (a + b) = 2 powi a * 2 powi b"
  by (rule power_int_add) simp

lemma nearest_double_scaled:
  fixes N E :: int
  assumes "0 < N" and "N \<le> 2 ^ 53" and "- 1022 \<le> E"
  shows "nearest_double (of_int N * 2 powi (E - 52)) = of_int N * 2 powi (E - 52)"
proof -
  define y :: real where "y = of_int N * 2 powi (E - 52)"
  have ypos: "0 < y" using assms(1) by (simp add: y_def)
  have "\<exists>k::int. y / quantum y = of_int k"
  proof (cases "N = 2 ^ 53")
    case True
    have "(of_int N :: real) = 2 powi 53" by (simp add: True)
    then have "y = 2 powi 53 * 2 powi (E - 52)" by (simp only: y_def)
    then have y: "y = 2 powi (E + 1)" by (simp only: two_powi_53)
    have "expo y = E + 1"
      by (rule expo_unique) (simp_all add: y two_powi_less_iff)
    then have q: "quantum y = 2 powi (E + 1 - 52)"
      using assms(3) by (simp add: quantum_def max_def)
    have "(2::real) powi (E + 1) = 2 powi ((E + 1 - 52) + 52)"
      by (rule arg_cong [where f = "\<lambda>i. 2 powi i"]) simp
    then have "y = 2 powi ((E + 1 - 52) + 52)" by (simp only: y)
    then have "y = 2 powi (E + 1 - 52) * 2 powi 52" by (simp only: two_powi_split)
    then have "y = of_int (2 ^ 52) * quantum y" unfolding q by (simp add: mult.commute)
    then have "y / quantum y = of_int (2 ^ 52)"
      using quantum_pos [of y] by (metis nonzero_mult_div_cancel_right less_numeral_extra(3))
    then show ?thesis ..
  next
    case False
    with assms(2) have "N < 2 ^ 53" by simp
    then have "(of_int N :: real) < of_int (2 ^ 53)" by (simp only: of_int_less_iff)
    then have "(of_int N :: real) < 2 powi 53" by simp
    then have "y < 2 powi 53 * 2 powi (E - 52)" unfolding y_def
      by (intro mult_strict_right_mono) simp_all
    then have "y < 2 powi (E + 1)" by (simp only: two_powi_53)
    moreover have "2 powi (expo y) \<le> y" using expo_bounds [OF ypos] by simp
    ultimately have "(2::real) powi (expo y) < 2 powi (E + 1)" by linarith
    then have "expo y \<le> E" by (simp add: two_powi_less_iff)
    define M where "M = max (expo y) (- 1022)"
    have le: "M \<le> E" using \<open>expo y \<le> E\<close> assms(3) by (simp add: M_def)
    define d where "d = nat (E - M)"
    have "(2::real) powi (E - 52) = 2 powi ((M - 52) + int d)"
      by (rule arg_cong [where f = "\<lambda>i. 2 powi i"]) (use le in \<open>simp add: d_def\<close>)
    then have "(2::real) powi (E - 52) = 2 powi (M - 52) * 2 ^ d"
      by (simp only: two_powi_split power_int_of_nat)
    moreover have "quantum y = 2 powi (M - 52)" by (simp add: quantum_def M_def)
    ultimately have "of_int N * 2 powi (E - 52) = of_int (N * 2 ^ d) * quantum y"
      by simp
    then have "y = of_int (N * 2 ^ d) * quantum y" by (simp only: y_def)
    then have "y / quantum y = of_int (N * 2 ^ d)"
      using quantum_pos [of y] by (metis nonzero_mult_div_cancel_right less_numeral_extra(3))
    then show ?thesis ..
  qed
  then obtain k :: int where "y / quantum y = of_int k" ..
  with ypos have "nearest_double y = y" by (rule nearest_double_multiple)
  then show ?thesis by (simp only: y_def)
qed

lemma nearest_double_pos_form:
  assumes "0 < x"
  shows "\<exists>N::int. 0 \<le> N \<and> N \<le> 2 ^ 53
           \<and> nearest_double x = of_int N * 2 powi (max (expo x) (- 1022) - 52)"
proof -
  define E where "E = max (expo x) (- 1022)"
  define N where "N = round_even (x / quantum x)"
  have q: "quantum x = 2 powi (E - 52)" by (simp add: quantum_def E_def)
  have "0 \<le> x / quantum x" using assms quantum_pos [of x] by simp
  then have "of_int 0 \<le> x / quantum x" by simp
  then have lo: "0 \<le> N" unfolding N_def by (rule round_even_lower)
  have "x < 2 powi (expo x + 1)" using expo_bounds [OF assms] by simp
  also have "(2::real) powi (expo x + 1) \<le> 2 powi (E + 1)"
    by (simp add: two_powi_le_iff E_def)
  finally have "x < 2 powi 53 * quantum x" by (simp only: q two_powi_53)
  then have "x / quantum x < 2 powi 53"
    using quantum_pos [of x] by (simp only: pos_divide_less_eq)
  then have "x / quantum x \<le> of_int (2 ^ 53)" by simp
  then have hi: "N \<le> 2 ^ 53" unfolding N_def by (rule round_even_upper)
  have "nearest_double x = of_int N * 2 powi (E - 52)"
    using assms by (simp add: nearest_double_def N_def q)
  with lo hi show ?thesis unfolding E_def by blast
qed

lemma nearest_double_0: "nearest_double 0 = 0"
  by (simp add: nearest_double_def)

lemma nearest_double_idem_pos:
  assumes "0 < x"
  shows "nearest_double (nearest_double x) = nearest_double x"
proof -
  from nearest_double_pos_form [OF assms] obtain N :: int
    where N: "0 \<le> N" "N \<le> 2 ^ 53"
      and eq: "nearest_double x = of_int N * 2 powi (max (expo x) (- 1022) - 52)"
    by blast
  show ?thesis
  proof (cases "N = 0")
    case True
    then show ?thesis by (simp add: eq nearest_double_0)
  next
    case False
    with N(1) have "0 < N" by simp
    then show ?thesis
      unfolding eq using N(2) by (rule nearest_double_scaled) simp
  qed
qed

lemma nearest_double_idem: "nearest_double (nearest_double x) = nearest_double x"
proof (cases "0 < x")
  case True
  then show ?thesis by (rule nearest_double_idem_pos)
next
  case False
  show ?thesis
  proof (cases "x = 0")
    case True
    then show ?thesis by (simp add: nearest_double_0)
  next
    case False
    with \<open>\<not> 0 < x\<close> have "0 < - x" by simp
    then have "nearest_double (nearest_double (- x)) = nearest_double (- x)"
      by (rule nearest_double_idem_pos)
    then show ?thesis by (simp add: nearest_double_minus)
  qed
qed

lemma is_double_to_double: "is_double (to_double x)"
  by (simp add: to_double_def is_double_def nearest_double_idem abs_less_iff not_le)

lemma is_double_dbl_add: "is_double a \<Longrightarrow> is_double (dbl_add a v)"
  by (cases a) (simp_all add: dbl_add_def is_double_to_double)

lemma to_double_fixed: "nearest_double x = x \<Longrightarrow> \<bar>x\<bar> < 2 powi 1024 \<Longrightarrow> to_double x = Fin x"
  by (simp add: to_double_def abs_less_iff not_le)

lemma dbl_add_zero: "is_double a \<Longrightarrow> dbl_add a 0 = a"
  by (cases a) (simp_all add: dbl_add_def is_double_def to_double_fixed)

lemma to_double_0: "to_double 0 = Fin 0"
  by (simp add: to_double_def nearest_double_0)

lemma to_double_scaled:
  fixes N E :: int
  assumes "0 < N" and "N < 2 ^ 53" and "- 1022 \<le> E" and "E \<le> 1023"
  shows "to_double (of_int N * 2 powi (E - 52)) = Fin (of_int N * 2 powi (E - 52))"
proof (rule to_double_fixed)
  show "nearest_double (of_int N * 2 powi (E - 52)) = of_int N * 2 powi (E - 52)"
    using assms(1-3) by (intro nearest_double_scaled) simp_all
  have "(of_int N :: real) < of_int (2 ^ 53)" using assms(2) by (simp only: of_int_less_iff)
  then have "(of_int N :: real) < 2 powi 53" by simp
  then have "of_int N * 2 powi (E - 52) < 2 powi 53 * (2::real) powi (E - 52)"
    by (intro mult_strict_right_mono) simp_all
  also have "\<dots> = 2 powi (E + 1)" by (simp only: two_powi_53)
  also have "\<dots> \<le> 2 powi 1024" using assms(4) by (simp only: two_powi_le_iff)
  finally have "of_int N * 2 powi (E - 52) < (2::real) powi 1024" .
  moreover have "0 \<le> real_of_int N * 2 powi (E - 52)" using assms(1) by simp
  ultimately show "\<bar>real_of_int N * 2 powi (E - 52)\<bar> < 2 powi 1024" by simp
qed

lemma nearest_double_at:
  assumes "2 powi e \<le> x" and "x < 2 powi (e + 1)" and "- 1022 \<le> e"
  shows "nearest_double x = of_int (round_even (x / 2 powi (e - 52))) * 2 powi (e - 52)"
proof -
  have ex: "expo x = e" using assms(1,2) by (rule expo_unique)
  have "0 < (2::real) powi e" by simp
  with assms(1) have pos: "0 < x" by linarith
  show ?thesis using pos assms(3) by (simp add: nearest_double_def quantum_def ex max_def)
qed


section \<open>Dashboard: the average score\<close>

lemma count_or_one: "(if n \<noteq> 0 then n else 1) = max n (1::nat)"
  by (cases n) simp_all

lemma running_sum_is_double:
  "is_double a \<Longrightarrow> is_double (foldl (\<lambda>sum' p. dbl_add sum' (f p)) a xs)"
  by (induction xs arbitrary: a) (simp_all add: is_double_dbl_add)

lemma sum_skips_incomplete:
  "\<forall>p \<in> set xs. \<not> p_completed p \<longrightarrow> f p = 0 \<Longrightarrow> is_double a \<Longrightarrow>
     foldl (\<lambda>sum' p. dbl_add sum' (f p)) a xs = foldl dbl_add a (map f (filter p_completed xs))"
  by (induction xs arbitrary: a) (simp_all add: is_double_dbl_add dbl_add_zero)

lemma sum_of_zeros:
  "\<forall>p \<in> set xs. f p = 0 \<Longrightarrow> foldl (\<lambda>sum' p. dbl_add sum' (f p)) (Fin 0) xs = Fin 0"
  by (induction xs) (simp_all add: dbl_add_def to_double_0)

lemma is_double_zero: "is_double (Fin 0)"
  by (simp add: is_double_def nearest_double_0)

lemma to_double_not_NaN: "to_double x \<noteq> NaN"
  by (simp add: to_double_def)

lemma dbl_add_not_NaN: "a \<noteq> NaN \<Longrightarrow> dbl_add a v \<noteq> NaN"
  by (cases a) (simp_all add: dbl_add_def to_double_not_NaN)

lemma running_sum_not_NaN:
  "a \<noteq> NaN \<Longrightarrow> foldl (\<lambda>sum' p. dbl_add sum' (f p)) a xs \<noteq> NaN"
  by (induction xs arbitrary: a) (simp_all add: dbl_add_not_NaN)

lemma dbl_div_not_NaN: "a \<noteq> NaN \<Longrightarrow> k \<noteq> 0 \<Longrightarrow> dbl_div a k \<noteq> NaN"
  by (cases a) (simp_all add: dbl_div_def to_double_not_NaN)

lemma Math_round_not_NaN: "a \<noteq> NaN \<Longrightarrow> Math_round a \<noteq> NaN"
  by (cases a) (simp_all add: Math_round_def)

lemma average_unfolded:
  "ds_averageScore (getProgressStats xs) =
     Math_round (dbl_div (foldl (\<lambda>sum' p. dbl_add sum' (num_or (p_score p) 0)) (Fin 0) xs)
                   (real (max (length (filter p_completed xs)) 1)))"
  unfolding getProgressStats_def Let_def count_or_one by simp

text \<open>Some doubles: small integers and halves.\<close>

lemma to_double_50: "to_double 50 = Fin 50"
  using to_double_scaled [of 50 52] by simp

lemma to_double_51: "to_double 51 = Fin 51"
  using to_double_scaled [of 51 52] by simp

lemma to_double_100: "to_double 100 = Fin 100"
  using to_double_scaled [of 100 52] by simp

lemma to_double_101: "to_double 101 = Fin 101"
  using to_double_scaled [of 101 52] by simp

lemma to_double_102: "to_double 102 = Fin 102"
  using to_double_scaled [of 102 52] by simp

lemma to_double_150: "to_double 150 = Fin 150"
  using to_double_scaled [of 150 52] by simp

lemma to_double_101_half: "to_double (101 / 2) = Fin (101 / 2)"
  using to_double_scaled [of 101 51] by simp

lemma to_double_51_half: "to_double (51 / 2) = Fin (51 / 2)"
  using to_double_scaled [of 51 51] by simp

lemma to_double_125_half: "to_double (125 / 2) = Fin (125 / 2)"
  using to_double_scaled [of 125 51] by simp

text \<open>
  The percentages that a quiz with 7 of 12 and one with 2 of 3 correct answers store are
  the doubles \<open>8209686820727467 / 2 ^ 47\<close> (printed 58.333333333333336) and
  \<open>2345624805922133 / 2 ^ 45\<close> (printed 66.66666666666666). Their exact sum lies half
  way between two doubles and is rounded to the even one, 125.
\<close>

lemma to_double_first_percentage:
  "to_double (8209686820727467 / 2 ^ 47) = Fin (8209686820727467 / 2 ^ 47)"
  using to_double_scaled [of 8209686820727467 5] by simp

lemma to_double_sum_of_percentages:
  "to_double (8209686820727467 / 2 ^ 47 + 2345624805922133 / 2 ^ 45) = Fin 125"
proof -
  have "nearest_double (8209686820727467 / 2 ^ 47 + 2345624805922133 / 2 ^ 45) =
          of_int (round_even ((8209686820727467 / 2 ^ 47 + 2345624805922133 / 2 ^ 45) / 2 powi (6 - 52)))
            * 2 powi (6 - 52)"
    by (rule nearest_double_at) simp_all
  also have "\<dots> = 125" by (simp add: round_even_def)
  finally show ?thesis by (simp add: to_double_def)
qed

text \<open>
  On those two records the dashboard shows 63: the rounded sum is 125, its half 62.5, and
  \<open>Math.round\<close> takes the half up. The exact sum is below 125 and would give 62.
\<close>

lemma average_of_fractional_percentages:
  "ds_averageScore (getProgressStats
      [record_of ''topic_quiz_17'' True (Some (8209686820727467 / 2 ^ 47)),
       record_of ''chapter_quiz_18'' True (Some (2345624805922133 / 2 ^ 45))]) = Fin 63
 \<and> round_half_up ((8209686820727467 / 2 ^ 47 + 2345624805922133 / 2 ^ 45) / 2) = 62"
proof -
  have "dbl_add (dbl_add (Fin 0) (8209686820727467 / 2 ^ 47)) (2345624805922133 / 2 ^ 45) = Fin 125"
    using to_double_first_percentage to_double_sum_of_percentages by (simp add: dbl_add_def)
  then show ?thesis
    by (simp add: average_unfolded record_of_def num_or_def dbl_div_def to_double_125_half
          Math_round_def round_half_up_def)
qed

text \<open>
  The dashboard rounds the quotient: two completed records with scores 50 and 51 are
  reported as 51, where the sum over the completed records divided by their number is
  \<open>101 / 2\<close>.
\<close>

theorem average_score_counterexample:
  "ds_averageScore (getProgressStats
      [record_of ''topic_quiz_17'' True (Some 50), record_of ''chapter_quiz_18'' True (Some 51)]) = Fin 51
 \<and> spec_averageScore
      [record_of ''topic_quiz_17'' True (Some 50), record_of ''chapter_quiz_18'' True (Some 51)]
    = Fin (101 / 2)
 \<and> ds_averageScore (getProgressStats
      [record_of ''topic_quiz_17'' True (Some 50), record_of ''chapter_quiz_18'' True (Some 51)])
    \<noteq> spec_averageScore
      [record_of ''topic_quiz_17'' True (Some 50), record_of ''chapter_quiz_18'' True (Some 51)]"
  by (simp add: average_unfolded spec_averageScore_def record_of_def num_or_def dbl_add_def dbl_div_def
        to_double_50 to_double_101 to_double_101_half Math_round_def round_half_up_def)

text \<open>
  C7, as amended. On a log in which only completed records carry a non-zero score (every
  writer of the log in the repository stores \<open>completed: true\<close>), the dashboard's average
  is \<open>Math.round\<close> of the sum of the scores of the completed records, null counted as 0,
  divided by the number of completed records or by 1 when there is none, the sum and the
  quotient being those of double arithmetic. The empty log and a log whose scores are all
  null report 0. The divisor is never 0 and the average is never NaN, on any log.
\<close>

theorem average_score_rounded:
  "((\<forall>p \<in> set xs. \<not> p_completed p \<longrightarrow> num_or (p_score p) 0 = 0) \<longrightarrow>
      ds_averageScore (getProgressStats xs) = Math_round (spec_averageScore xs))
 \<and> ds_averageScore (getProgressStats []) = Fin 0
 \<and> ((\<forall>p \<in> set xs. p_score p = None) \<longrightarrow> ds_averageScore (getProgressStats xs) = Fin 0)
 \<and> (if length (filter p_completed xs) \<noteq> 0 then length (filter p_completed xs) else 1) \<noteq> 0
 \<and> ds_averageScore (getProgressStats xs) \<noteq> NaN"
proof (intro conjI impI)
  assume "\<forall>p \<in> set xs. \<not> p_completed p \<longrightarrow> num_or (p_score p) 0 = 0"
  then have "foldl (\<lambda>sum' p. dbl_add sum' (num_or (p_score p) 0)) (Fin 0) xs =
               foldl dbl_add (Fin 0) (map (\<lambda>p. num_or (p_score p) 0) (filter p_completed xs))"
    using is_double_zero by (rule sum_skips_incomplete)
  then show "ds_averageScore (getProgressStats xs) = Math_round (spec_averageScore xs)"
    by (simp only: average_unfolded spec_averageScore_def)
next
  show "ds_averageScore (getProgressStats []) = Fin 0"
    by (simp add: average_unfolded dbl_div_def to_double_0 Math_round_def round_half_up_def)
next
  assume "\<forall>p \<in> set xs. p_score p = None"
  then have "\<forall>p \<in> set xs. num_or (p_score p) 0 = 0"
    by (simp add: num_or_def)
  then have "foldl (\<lambda>sum' p. dbl_add sum' (num_or (p_score p) 0)) (Fin 0) xs = Fin 0"
    by (rule sum_of_zeros)
  then show "ds_averageScore (getProgressStats xs) = Fin 0"
    by (simp add: average_unfolded dbl_div_def to_double_0 Math_round_def round_half_up_def)
next
  show "(if length (filter p_completed xs) \<noteq> 0 then length (filter p_completed xs) else 1) \<noteq> 0"
    by simp
next
  have "foldl (\<lambda>sum' p. dbl_add sum' (num_or (p_score p) 0)) (Fin 0) xs \<noteq> NaN"
    by (rule running_sum_not_NaN) simp
  then show "ds_averageScore (getProgressStats xs) \<noteq> NaN"
    unfolding average_unfolded by (intro Math_round_not_NaN dbl_div_not_NaN) simp_all
qed

theorem average_score_rounded_witness:
  "ds_averageScore (getProgressStats
      [record_of ''1'' True None, record_of ''topic_quiz_17'' True (Some 50),
       record_of ''chapter_quiz_18'' True (Some 51), record_of ''topic_quiz_19'' True (Some 1),
       record_of ''2'' False None]) = Fin 26
 \<and> ds_averageScore (getProgressStats [record_of ''1'' True None, record_of ''2'' False None]) = Fin 0"
  using average_score_rounded [of "[record_of ''1'' True None, record_of ''topic_quiz_17'' True (Some 50),
       record_of ''chapter_quiz_18'' True (Some 51), record_of ''topic_quiz_19'' True (Some 1),
       record_of ''2'' False None]"]
        average_score_rounded [of "[record_of ''1'' True None, record_of ''2'' False None]"]
  by (simp add: record_of_def spec_averageScore_def num_or_def dbl_add_def dbl_div_def
        to_double_0 to_double_50 to_double_101 to_double_102 to_double_51_half
        Math_round_def round_half_up_def)

text \<open>
  The numerator runs over the whole log, not over the completed records: a score on an
  incomplete record is added too.
\<close>

lemma average_counts_incomplete_scores:
  "ds_averageScore (getProgressStats
      [record_of ''a'' False (Some 50), record_of ''b'' True (Some 100)]) = Fin 150"
  by (simp add: average_unfolded record_of_def num_or_def dbl_add_def dbl_div_def
        to_double_50 to_double_150 Math_round_def round_half_up_def)


section \<open>Insertion-ordered sets and the scoring loops\<close>

text \<open>
  \<open>new_Set\<close> keeps exactly the values of its argument, each once; on a list that is
  already free of duplicates, adding one value appends it or changes nothing.
\<close>

lemma new_Set_fold_set:
  "set (fold (\<lambda>x acc. if x \<in> set acc then acc else acc @ [x]) xs acc) = set acc \<union> set xs"
  by (induction xs arbitrary: acc) auto

lemma new_Set_fold_distinct:
  "distinct acc \<Longrightarrow> distinct (fold (\<lambda>x acc. if x \<in> set acc then acc else acc @ [x]) xs acc)"
  by (induction xs arbitrary: acc) auto

lemma new_Set_fold_id:
  "distinct (acc @ xs) \<Longrightarrow> fold (\<lambda>x acc. if x \<in> set acc then acc else acc @ [x]) xs acc = acc @ xs"
  by (induction xs arbitrary: acc) auto

lemma set_new_Set: "set (new_Set xs) = set xs"
  by (simp add: new_Set_def new_Set_fold_set)

lemma distinct_new_Set: "distinct (new_Set xs)"
  by (simp add: new_Set_def new_Set_fold_distinct)

lemma new_Set_snoc:
  "distinct xs \<Longrightarrow> new_Set (xs @ [x]) = (if x \<in> set xs then xs else xs @ [x])"
  by (simp add: new_Set_def new_Set_fold_id)

lemma length_new_Set_snoc: "distinct xs \<Longrightarrow> length xs \<le> length (new_Set (xs @ [x]))"
  by (simp add: new_Set_snoc)

lemma misses_Cons:
  "misses answers i (q # qs) =
     (if answers i = Some (q_answer q) then misses answers (Suc i) qs
      else q # misses answers (Suc i) qs)"
  by (simp add: misses_def)

lemma hits_Cons:
  "hits answers i (q # qs) =
     (if answers i = Some (q_answer q) then Suc (hits answers (Suc i) qs)
      else hits answers (Suc i) qs)"
  by (simp add: hits_def)

lemma misses_Nil: "misses answers i [] = []" by (simp add: misses_def)
lemma hits_Nil: "hits answers i [] = 0" by (simp add: hits_def)

lemma forEach_initial_body:
  "forEach (initial_body answers) qs i (score, weak) =
     (score + hits answers i qs,
      weak @ map (\<lambda>q. str_or (q_chapter q) []) (filter (\<lambda>q. truthy (q_chapter q)) (misses answers i qs)))"
  by (induction qs arbitrary: i score weak)
     (simp_all add: initial_body_def misses_Cons hits_Cons misses_Nil hits_Nil)

lemma forEach_quiz_body_tagged:
  "ty = Initial \<or> ty = Three_chapter \<Longrightarrow>
   forEach (quiz_body ty selected answers) qs i (score, weak) =
     (score + hits answers i qs,
      weak @ map (\<lambda>q. str_or (q_chapter q) []) (filter (\<lambda>q. truthy (q_chapter q)) (misses answers i qs)))"
  by (induction qs arbitrary: i score weak)
     (auto simp add: quiz_body_def misses_Cons hits_Cons misses_Nil hits_Nil)

lemma forEach_quiz_body_chapter:
  "forEach (quiz_body Chapter selected answers) qs i (score, weak) =
     (score + hits answers i qs,
      weak @ map (\<lambda>q. str_or (q_chapter q) (str_or selected []))
               (filter (\<lambda>q. truthy (q_topic q)) (misses answers i qs)))"
  by (induction qs arbitrary: i score weak)
     (auto simp add: quiz_body_def misses_Cons hits_Cons misses_Nil hits_Nil)

lemma forEach_quiz_body_topic:
  "forEach (quiz_body Topic selected answers) qs i (score, weak) =
     (score + hits answers i qs, weak)"
  by (induction qs arbitrary: i score weak)
     (auto simp add: quiz_body_def hits_Cons hits_Nil)

lemma hits_card:
  "hits answers 0 qs = card {i. i < length qs \<and> answers i = Some (q_answer (qs ! i))}"
proof -
  have "{i. i < length (enumerate 0 qs) \<and>
            (case enumerate 0 qs ! i of (j, q) \<Rightarrow> answers j = Some (q_answer q))}
          = {i. i < length qs \<and> answers i = Some (q_answer (qs ! i))}"
    by (auto simp add: nth_enumerate_eq)
  then show ?thesis
    by (simp add: hits_def length_filter_conv_card)
qed


section \<open>What a quiz submission leaves in the state\<close>

lemma quiz_submit_weak_other:
  "ty \<noteq> Initial \<Longrightarrow>
   weakChapters (fst (handleQuizSubmit srv clk ty s)) =
     (if js_lt (score_ratio ty s) (Fin 0.6) then new_Set (snd (quiz_result ty s)) else weakChapters s)"
  by (cases ty) (simp_all add: handleQuizSubmit_def Let_def split: prod.splits sum.splits)

lemma quiz_submit_weak_initial:
  "weakChapters (fst (handleQuizSubmit srv clk Initial s)) =
     snd (forEach (initial_body (quizAnswers s)) (initialQuiz s) 0 (0, []))"
  by (simp add: handleQuizSubmit_def handleInitialQuizSubmit_def Let_def split: prod.splits sum.splits)

lemma quiz_submit_completedChapters:
  "completedChapters (fst (handleQuizSubmit srv clk ty s)) = completedChapters s"
  by (cases ty) (simp_all add: handleQuizSubmit_def handleInitialQuizSubmit_def Let_def split: prod.splits sum.splits)

lemma quiz_submit_step:
  "step (fst (handleQuizSubmit srv clk ty s)) =
     (case ty of
        Initial \<Rightarrow> step (fst (handleInitialQuizSubmit srv clk s))
      | Topic \<Rightarrow> 6
      | Chapter \<Rightarrow> if 3 \<le> length (completedChapters s) then 10 else 6
      | Three_chapter \<Rightarrow> 6)"
  by (cases ty) (simp_all add: handleQuizSubmit_def handleInitialQuizSubmit_def Let_def split: prod.splits sum.splits)

lemma initial_submit_step:
  "step (fst (handleInitialQuizSubmit srv clk s)) = 6 \<or> step (fst (handleInitialQuizSubmit srv clk s)) = step s"
  by (simp add: handleInitialQuizSubmit_def Let_def split: prod.splits sum.splits)

lemma str_or_truthy: "truthy v \<Longrightarrow> str_or v d = the v"
  by (cases v) (simp_all add: truthy_def str_or_def)

lemma map_tag_truthy:
  "map (\<lambda>q. str_or (q_chapter q) []) (filter (\<lambda>q. truthy (q_chapter q)) qs)
     = map (\<lambda>q. the (q_chapter q)) (filter (\<lambda>q. truthy (q_chapter q)) qs)"
  by (induction qs) (simp_all add: str_or_truthy)


section \<open>Miss attribution by quiz type\<close>

text \<open>
  A wrongly answered question tagged with chapter Heat and topic Speed, while Motion is the
  selected chapter: the topic quiz adds nothing to the weak accumulator, and the chapter
  quiz adds the question's own chapter Heat, not the selected chapter.
\<close>

theorem miss_attribution_counterexample:
  "snd (quiz_result Topic
      (initial_wizard\<lparr>selectedChapter := Some ''Motion'',
          topicQuiz := [question_of ''A'' (Some ''Heat'') (Some ''Speed'')],
          chapterQuiz := [question_of ''A'' (Some ''Heat'') (Some ''Speed'')]\<rparr>)) = []
 \<and> snd (quiz_result Chapter
      (initial_wizard\<lparr>selectedChapter := Some ''Motion'',
          topicQuiz := [question_of ''A'' (Some ''Heat'') (Some ''Speed'')],
          chapterQuiz := [question_of ''A'' (Some ''Heat'') (Some ''Speed'')]\<rparr>)) = [''Heat'']"
  by (simp add: quiz_result_def quiz_of_def answers_of_def initial_wizard_def question_of_def
        quiz_body_def truthy_def str_or_def)

text \<open>
  C6, as amended. The weak accumulator of a submission starts from the current weak
  chapters. For the initial and the three-chapter quiz, every miss (a wrong or missing
  answer) whose question has a non-empty chapter tag appends that tag. For a chapter quiz,
  every miss whose question has a non-empty topic tag appends the question's own chapter
  tag when it has one, and otherwise the selected chapter, or the empty string when none is
  selected; a miss without a topic tag appends nothing. For a topic quiz nothing is
  appended.
\<close>

theorem miss_attribution_by_type:
  "(ty = Initial \<or> ty = Three_chapter \<longrightarrow>
      snd (quiz_result ty s) =
        weakChapters s @ map (\<lambda>q. the (q_chapter q))
                           (filter (\<lambda>q. truthy (q_chapter q)) (misses (answers_of ty s) 0 (quiz_of ty s))))
 \<and> (ty = Chapter \<longrightarrow>
      snd (quiz_result ty s) =
        weakChapters s @ map (\<lambda>q. if truthy (q_chapter q) then the (q_chapter q)
                                    else if truthy (selectedChapter s) then the (selectedChapter s)
                                    else [])
                           (filter (\<lambda>q. truthy (q_topic q)) (misses (answers_of ty s) 0 (quiz_of ty s))))
 \<and> (ty = Topic \<longrightarrow> snd (quiz_result ty s) = weakChapters s)"
proof (intro conjI impI)
  assume "ty = Initial \<or> ty = Three_chapter"
  then show "snd (quiz_result ty s) =
        weakChapters s @ map (\<lambda>q. the (q_chapter q))
                           (filter (\<lambda>q. truthy (q_chapter q)) (misses (answers_of ty s) 0 (quiz_of ty s)))"
    by (simp add: quiz_result_def forEach_quiz_body_tagged map_tag_truthy)
next
  assume ty: "ty = Chapter"
  have eq: "(\<lambda>q. str_or (q_chapter q) (str_or (selectedChapter s) [])) =
        (\<lambda>q. if truthy (q_chapter q) then the (q_chapter q)
              else if truthy (selectedChapter s) then the (selectedChapter s) else [])"
    by (rule ext) (auto simp add: str_or_def truthy_def split: option.splits)
  show "snd (quiz_result ty s) =
        weakChapters s @ map (\<lambda>q. if truthy (q_chapter q) then the (q_chapter q)
                                    else if truthy (selectedChapter s) then the (selectedChapter s)
                                    else [])
                           (filter (\<lambda>q. truthy (q_topic q)) (misses (answers_of ty s) 0 (quiz_of ty s)))"
    unfolding ty quiz_result_def forEach_quiz_body_chapter eq by simp
next
  assume "ty = Topic"
  then show "snd (quiz_result ty s) = weakChapters s"
    by (simp add: quiz_result_def forEach_quiz_body_topic)
qed

theorem miss_attribution_by_type_witness:
  "snd (quiz_result Three_chapter
      (initial_wizard\<lparr>selectedChapter := Some ''Motion'', weakChapters := [''Light''],
          threeChapterQuiz := scenario_quiz, threeChapterQuizAnswers := scenario_answers\<rparr>))
     = [''Light'', ''Ch2'']
 \<and> snd (quiz_result Chapter
      (initial_wizard\<lparr>selectedChapter := Some ''Motion'', weakChapters := [''Light''],
          chapterQuiz := [question_of ''A'' (Some ''Heat'') (Some ''Speed''),
                          question_of ''A'' None (Some ''Speed''),
                          question_of ''A'' (Some ''Heat'') None]\<rparr>))
     = [''Light'', ''Heat'', ''Motion'']
 \<and> snd (quiz_result Topic
      (initial_wizard\<lparr>selectedChapter := Some ''Motion'', weakChapters := [''Light''],
          topicQuiz := scenario_quiz, topicQuizAnswers := scenario_answers\<rparr>))
     = [''Light'']"
  using miss_attribution_by_type [of Three_chapter
          "initial_wizard\<lparr>selectedChapter := Some ''Motion'', weakChapters := [''Light''],
          threeChapterQuiz := scenario_quiz, threeChapterQuizAnswers := scenario_answers\<rparr>"]
        miss_attribution_by_type [of Chapter
          "initial_wizard\<lparr>selectedChapter := Some ''Motion'', weakChapters := [''Light''],
          chapterQuiz := [question_of ''A'' (Some ''Heat'') (Some ''Speed''),
                          question_of ''A'' None (Some ''Speed''),
                          question_of ''A'' (Some ''Heat'') None]\<rparr>"]
        miss_attribution_by_type [of Topic
          "initial_wizard\<lparr>selectedChapter := Some ''Motion'', weakChapters := [''Light''],
          topicQuiz := scenario_quiz, topicQuizAnswers := scenario_answers\<rparr>"]
  by (simp add: initial_wizard_def scenario_quiz_def scenario_answers_def question_of_def
        quiz_of_def answers_of_def misses_def truthy_def enumerate_eq_zip)


section \<open>When the weak chapters are written\<close>

text \<open>
  The initial quiz of the end-to-end scenario has the score ratio \<open>2 / 3\<close>, which is not
  below 0.6, and still its submission changes the weak chapters from none to Ch2:
  \<open>handleInitialQuizSubmit\<close>, called last, stores its own list whatever the ratio.
\<close>

theorem weak_write_counterexample:
  "\<not> js_lt (score_ratio Initial
          (initial_wizard\<lparr>step := 4, initialQuiz := scenario_quiz, quizAnswers := scenario_answers\<rparr>))
        (Fin 0.6)
 \<and> weakChapters (initial_wizard\<lparr>step := 4, initialQuiz := scenario_quiz, quizAnswers := scenario_answers\<rparr>) = []
 \<and> weakChapters (fst (handleQuizSubmit (resolving motion_plan) the_clock Initial
        (initial_wizard\<lparr>step := 4, initialQuiz := scenario_quiz, quizAnswers := scenario_answers\<rparr>)))
     = [''Ch2'']"
  by (simp add: quiz_submit_weak_initial score_ratio_def quiz_result_def quiz_of_def answers_of_def
        forEach_quiz_body_tagged js_div_def js_lt_def)
     (simp add: initial_wizard_def scenario_quiz_def scenario_answers_def question_of_def
        initial_body_def hits_def truthy_def str_or_def enumerate_eq_zip)

text \<open>
  C5, as amended. For a topic, chapter or three-chapter submission the weak accumulator,
  deduplicated, is written into \<open>weakChapters\<close> if and only if the score divided by the
  number of questions is below 0.6 in JavaScript's comparison; otherwise (also for an empty
  quiz, whose ratio is NaN) \<open>weakChapters\<close> is unchanged. For the initial quiz the weak
  chapters after the submission are the chapter tags of that attempt's misses, whatever
  the ratio.
\<close>

theorem weak_write_threshold:
  "(ty \<noteq> Initial \<longrightarrow>
      weakChapters (fst (handleQuizSubmit srv clk ty s)) =
        (if js_lt (score_ratio ty s) (Fin 0.6) then new_Set (snd (quiz_result ty s))
         else weakChapters s))
 \<and> set (weakChapters (fst (handleQuizSubmit srv clk Initial s))) =
      set (map (\<lambda>q. the (q_chapter q))
             (filter (\<lambda>q. truthy (q_chapter q)) (misses (quizAnswers s) 0 (initialQuiz s))))"
  by (simp add: quiz_submit_weak_other quiz_submit_weak_initial forEach_initial_body map_tag_truthy)

theorem weak_write_threshold_witness:
  "weakChapters (fst (handleQuizSubmit (resolving motion_plan) the_clock Three_chapter
      (initial_wizard\<lparr>step := 10, weakChapters := [''Light''], threeChapterQuiz := scenario_quiz,
          threeChapterQuizAnswers := [0 \<mapsto> ''B'', 1 \<mapsto> ''B'', 2 \<mapsto> ''C'']\<rparr>)))
     = [''Light'', ''Ch1'', ''Ch2'']
 \<and> weakChapters (fst (handleQuizSubmit (resolving motion_plan) the_clock Three_chapter
      (initial_wizard\<lparr>step := 10, weakChapters := [''Light''], threeChapterQuiz := scenario_quiz,
          threeChapterQuizAnswers := scenario_answers\<rparr>)))
     = [''Light'']"
  using weak_write_threshold [of Three_chapter "resolving motion_plan" the_clock
          "initial_wizard\<lparr>step := 10, weakChapters := [''Light''], threeChapterQuiz := scenario_quiz,
          threeChapterQuizAnswers := [0 \<mapsto> ''B'', 1 \<mapsto> ''B'', 2 \<mapsto> ''C'']\<rparr>"]
        weak_write_threshold [of Three_chapter "resolving motion_plan" the_clock
          "initial_wizard\<lparr>step := 10, weakChapters := [''Light''], threeChapterQuiz := scenario_quiz,
          threeChapterQuizAnswers := scenario_answers\<rparr>"]
  by (simp add: score_ratio_def quiz_result_def quiz_of_def answers_of_def js_div_def js_lt_def new_Set_def
        initial_wizard_def scenario_quiz_def scenario_answers_def question_of_def
        quiz_body_def truthy_def str_or_def)


section \<open>Scoring the initial quiz\<close>

text \<open>
  The score stored by an initial-quiz submission is the number of indices whose answer
  equals the question's key, and the end-to-end scenario gives score 2 and weak chapters
  Ch2.
\<close>

lemma initial_quiz_score:
  "quizScore (fst (handleQuizSubmit srv clk Initial s)) =
     Some (card {i. i < length (initialQuiz s) \<and> quizAnswers s i = Some (q_answer (initialQuiz s ! i))})"
proof -
  have "quizScore (fst (handleQuizSubmit srv clk Initial s)) =
          Some (fst (forEach (initial_body (quizAnswers s)) (initialQuiz s) 0 (0, [])))"
    by (simp add: handleQuizSubmit_def handleInitialQuizSubmit_def Let_def split: prod.splits sum.splits)
  then show ?thesis
    by (simp add: forEach_initial_body hits_card)
qed

lemma initial_quiz_scenario:
  "quizScore (fst (handleQuizSubmit (resolving motion_plan) the_clock Initial
      (initial_wizard\<lparr>step := 4, initialQuiz := scenario_quiz, quizAnswers := scenario_answers\<rparr>))) = Some 2
 \<and> weakChapters (fst (handleQuizSubmit (resolving motion_plan) the_clock Initial
      (initial_wizard\<lparr>step := 4, initialQuiz := scenario_quiz, quizAnswers := scenario_answers\<rparr>))) = [''Ch2'']"
  by (simp add: handleQuizSubmit_def handleInitialQuizSubmit_def Let_def resolving_def
        score_ratio_def quiz_result_def quiz_of_def answers_of_def js_div_def js_lt_def
        initial_wizard_def scenario_quiz_def scenario_answers_def question_of_def
        quiz_body_def initial_body_def truthy_def str_or_def)

text \<open>
  C2. The initial quiz is to leave the chapters of the missed questions in the weak
  accumulator without duplicates, in order of first occurrence. On two missed questions
  that share the chapter Ch1 the submission leaves \<open>[Ch1, Ch1]\<close> in \<open>weakChapters\<close> and
  sends the same list as \<open>weak_chapters\<close>: \<open>handleInitialQuizSubmit\<close> pushes every miss
  and stores the array as it is, where \<open>handleQuizSubmit\<close> stores \<open>[...new Set(weak)]\<close>,
  which here is \<open>[Ch1]\<close>.
\<close>

theorem initial_quiz_keeps_duplicates:
  "weakChapters (fst (handleQuizSubmit (resolving motion_plan) the_clock Initial
      (initial_wizard\<lparr>step := 4, selectedSubject := ''Physics'',
          initialQuiz := [question_of ''X'' (Some ''Ch1'') None, question_of ''X'' (Some ''Ch1'') None],
          quizAnswers := [0 \<mapsto> ''A'', 1 \<mapsto> ''A'']\<rparr>)))
     = [''Ch1'', ''Ch1'']
 \<and> snd (handleQuizSubmit (resolving motion_plan) the_clock Initial
      (initial_wizard\<lparr>step := 4, selectedSubject := ''Physics'',
          initialQuiz := [question_of ''X'' (Some ''Ch1'') None, question_of ''X'' (Some ''Ch1'') None],
          quizAnswers := [0 \<mapsto> ''A'', 1 \<mapsto> ''A'']\<rparr>))
     = [Post_study_plans ''Physics'' [] 9 ''2025-01-01'' ''2025-07-01'' [] [''Ch1'', ''Ch1''] ''balanced'']
 \<and> new_Set [''Ch1'', ''Ch1''] = [''Ch1'']"
  by (simp add: handleQuizSubmit_def handleInitialQuizSubmit_def Let_def resolving_def the_clock_def
        score_ratio_def quiz_result_def quiz_of_def answers_of_def js_div_def js_lt_def new_Set_def
        initial_wizard_def question_of_def
        quiz_body_def initial_body_def truthy_def str_or_def)


section \<open>Task completion\<close>

text \<open>
  The completion checks scan the plan the handler started with. The task being completed
  is in that plan, so when it is still incomplete there, both checks fail and neither the
  step nor the completed topics and chapters change, whatever the server returns. The plan
  map offers the action on incomplete tasks only.
\<close>

lemma task_in_plan:
  assumes "map_of plan week = Some tasks" and "find P tasks = Some task"
  shows "task \<in> set (concat (map snd plan))"
proof -
  from assms(1) have "(week, tasks) \<in> set plan" by (rule map_of_SomeD)
  moreover from assms(2) have "task \<in> set tasks"
    by (auto simp add: find_Some_iff)
  ultimately show ?thesis by force
qed

lemma task_completion_stale_plan:
  assumes "map_of (studyPlan s) week = Some tasks"
    and "find (\<lambda>t. t_id t = taskId) tasks = Some task"
    and "\<not> t_completed task"
  shows "step (fst (handleTaskCompletion srv week taskId s)) = step s
       \<and> completedChapters (fst (handleTaskCompletion srv week taskId s)) = completedChapters s
       \<and> completedTopics (fst (handleTaskCompletion srv week taskId s)) = completedTopics s"
proof -
  have mem: "task \<in> set (concat (map snd (studyPlan s)))"
    using assms(1,2) by (rule task_in_plan)
  have "\<not> list_all t_completed
           (filter (\<lambda>t. t_topic t = t_topic task \<and> t_chapter t = t_chapter task)
              (concat (map snd (studyPlan s))))"
    using mem assms(3) by (auto simp add: list_all_iff)
  moreover have "\<not> list_all t_completed
           (filter (\<lambda>t. t_chapter t = t_chapter task) (concat (map snd (studyPlan s))))"
    using mem assms(3) by (auto simp add: list_all_iff)
  ultimately show ?thesis
    using assms(1,2)
    by (simp add: handleTaskCompletion_def Let_def split: sum.splits)
qed

text \<open>
  C4. After the last incomplete task of a chapter is marked complete the wizard is to move
  to the chapter quiz (step 9). In the plan with three Motion tasks of which the first two
  are complete, completing the third succeeds on the server, which returns the plan with
  every Motion task complete; the handler adopts that plan and stays on step 6 with no
  completed chapter recorded.
\<close>

theorem third_motion_task_no_transition:
  "step (fst (handleTaskCompletion (resolving motion_plan_done) ''2'' 3
            (dashboard_wizard\<lparr>studyPlan := motion_plan\<rparr>))) = 6
 \<and> completedChapters (fst (handleTaskCompletion (resolving motion_plan_done) ''2'' 3
            (dashboard_wizard\<lparr>studyPlan := motion_plan\<rparr>))) = []
 \<and> studyPlan (fst (handleTaskCompletion (resolving motion_plan_done) ''2'' 3
            (dashboard_wizard\<lparr>studyPlan := motion_plan\<rparr>))) = motion_plan_done
 \<and> list_all t_completed (filter (\<lambda>t. t_chapter t = ''Motion'') (concat (map snd motion_plan_done)))
 \<and> snd (handleTaskCompletion (resolving motion_plan_done) ''2'' 3
            (dashboard_wizard\<lparr>studyPlan := motion_plan\<rparr>))
     = [Put_task_progress ''Physics'' ''2'' 3 True 100, Put_progress ''3'' True None]"
  by (simp add: handleTaskCompletion_def Let_def resolving_def dashboard_wizard_def initial_wizard_def
        motion_plan_def motion_plan_done_def task_of_def number_to_string.simps)


section \<open>The three-chapter mastery transition\<close>

lemma task_completion_step:
  "step (fst (handleTaskCompletion srv week taskId s)) \<in> {step s, 8, 9}"
  by (simp add: handleTaskCompletion_def Let_def split: option.splits sum.splits)

lemma task_completion_completedChapters:
  "completedChapters (fst (handleTaskCompletion srv week taskId s)) = completedChapters s
 \<or> (\<exists>c. completedChapters (fst (handleTaskCompletion srv week taskId s)) = new_Set (completedChapters s @ [c]))"
  by (simp add: handleTaskCompletion_def Let_def split: option.splits sum.splits) blast

lemma reschedule_step: "step (fst (handleReschedule srv s)) = step s"
  by (simp add: handleReschedule_def Let_def split: sum.splits)

lemma reschedule_completedChapters:
  "completedChapters (fst (handleReschedule srv s)) = completedChapters s"
  by (simp add: handleReschedule_def Let_def split: sum.splits)

lemma marks_step: "step (handleMarksSubmit s) = 4 \<or> step (handleMarksSubmit s) = step s"
  by (simp add: handleMarksSubmit_def Let_def split: option.splits)

lemma marks_completedChapters: "completedChapters (handleMarksSubmit s) = completedChapters s"
  by (simp add: handleMarksSubmit_def Let_def split: option.splits)

lemma after_completedChapters:
  "completedChapters (after srv clk e s) = completedChapters s
 \<or> (\<exists>c. completedChapters (after srv clk e s) = new_Set (completedChapters s @ [c]))"
  using task_completion_completedChapters
  by (cases e)
     (simp_all add: after_def marks_completedChapters reschedule_completedChapters
        quiz_submit_completedChapters)

lemma after_step_10:
  "step (after srv clk e s) = 10 \<longleftrightarrow>
     (if e = QuizSubmit Chapter then 3 \<le> length (completedChapters s)
      else step s = 10 \<and> step (after srv clk e s) = step s)"
proof (cases e)
  case MarksSubmit
  then show ?thesis using marks_step [of s] by (auto simp add: after_def)
next
  case (TaskCompletion week taskId)
  then show ?thesis using task_completion_step [of srv week taskId s] by (auto simp add: after_def)
next
  case Reschedule
  then show ?thesis by (simp add: after_def reschedule_step)
next
  case (QuizSubmit ty)
  then show ?thesis
    using initial_submit_step [of srv clk s]
    by (cases ty) (auto simp add: after_def quiz_submit_step)
qed

text \<open>
  C8. The step-10 transition is decided on the submission of a chapter quiz, the step a
  just completed chapter leads to: it happens if and only if the completed chapters have
  reached three (\<open>completedChapters.length >= 3\<close>), so never with fewer, and none of
  the other actions moves the wizard from another step into step 10. The completed
  chapters never shrink: the only writer, \<open>handleTaskCompletion\<close>, stores
  \<open>[...new Set([...completedChapters, task.chapter])]\<close>, so after every action the
  chapters from before are still there, and a list without duplicates stays without
  duplicates and does not get shorter.
\<close>

theorem three_chapter_transition:
  "(e = QuizSubmit Chapter \<longrightarrow>
      (step (after srv clk e s) = 10 \<longleftrightarrow> 3 \<le> length (completedChapters s)))
 \<and> (e \<noteq> QuizSubmit Chapter \<and> step s \<noteq> 10 \<longrightarrow> step (after srv clk e s) \<noteq> 10)
 \<and> set (completedChapters s) \<subseteq> set (completedChapters (after srv clk e s))
 \<and> (distinct (completedChapters s) \<longrightarrow>
      distinct (completedChapters (after srv clk e s))
    \<and> length (completedChapters s) \<le> length (completedChapters (after srv clk e s)))"
proof (intro conjI impI)
  assume "e = QuizSubmit Chapter"
  then show "step (after srv clk e s) = 10 \<longleftrightarrow> 3 \<le> length (completedChapters s)"
    by (simp add: after_step_10)
next
  assume "e \<noteq> QuizSubmit Chapter \<and> step s \<noteq> 10"
  then show "step (after srv clk e s) \<noteq> 10" by (simp add: after_step_10)
next
  show "set (completedChapters s) \<subseteq> set (completedChapters (after srv clk e s))"
    using after_completedChapters [of srv clk e s] by (auto simp add: set_new_Set)
next
  assume "distinct (completedChapters s)"
  then show "distinct (completedChapters (after srv clk e s))"
    using after_completedChapters [of srv clk e s] by (auto simp add: distinct_new_Set)
next
  assume "distinct (completedChapters s)"
  then show "length (completedChapters s) \<le> length (completedChapters (after srv clk e s))"
    using after_completedChapters [of srv clk e s] by (auto simp add: length_new_Set_snoc)
qed

theorem three_chapter_transition_witness:
  "step (after (resolving motion_plan) the_clock (QuizSubmit Chapter)
      (dashboard_wizard\<lparr>step := 9, completedChapters := [''Motion'', ''Heat'']\<rparr>)) = 6
 \<and> step (after (resolving motion_plan) the_clock (QuizSubmit Chapter)
      (dashboard_wizard\<lparr>step := 9, completedChapters := [''Motion'', ''Heat'', ''Light'']\<rparr>)) = 10
 \<and> step (after (resolving motion_plan) the_clock (QuizSubmit Three_chapter)
      (dashboard_wizard\<lparr>step := 10, completedChapters := [''Motion'', ''Heat'', ''Light'']\<rparr>)) = 6
 \<and> step (after (resolving motion_plan_done) the_clock (TaskCompletion ''1'' 2)
      (dashboard_wizard\<lparr>studyPlan := motion_plan_done, completedChapters := [''Heat'', ''Light'']\<rparr>)) = 9
 \<and> completedChapters (after (resolving motion_plan_done) the_clock (TaskCompletion ''1'' 2)
      (dashboard_wizard\<lparr>studyPlan := motion_plan_done, completedChapters := [''Heat'', ''Light'']\<rparr>))
     = [''Heat'', ''Light'', ''Motion'']"
  using three_chapter_transition [of "QuizSubmit Chapter" "resolving motion_plan" the_clock
          "dashboard_wizard\<lparr>step := 9, completedChapters := [''Motion'', ''Heat'']\<rparr>"]
        three_chapter_transition [of "QuizSubmit Chapter" "resolving motion_plan" the_clock
          "dashboard_wizard\<lparr>step := 9, completedChapters := [''Motion'', ''Heat'', ''Light'']\<rparr>"]
        three_chapter_transition [of "QuizSubmit Three_chapter" "resolving motion_plan" the_clock
          "dashboard_wizard\<lparr>step := 10, completedChapters := [''Motion'', ''Heat'', ''Light'']\<rparr>"]
        three_chapter_transition [of "TaskCompletion ''1'' 2" "resolving motion_plan_done" the_clock
          "dashboard_wizard\<lparr>studyPlan := motion_plan_done, completedChapters := [''Heat'', ''Light'']\<rparr>"]
  by (simp add: after_def handleQuizSubmit_def handleTaskCompletion_def Let_def resolving_def
        the_clock_def score_ratio_def quiz_result_def quiz_of_def answers_of_def js_div_def js_lt_def
        new_Set_def dashboard_wizard_def initial_wizard_def motion_plan_done_def task_of_def
        record_of_def)

end
